theory Spec2Isabelle
  imports Complex_Main
begin

section \<open>Tensors\<close>

text \<open>
  A tensor of rank 1, 2 or 3 is a list, a list of rows, or a list of matrices. The
  entries are exact real and complex numbers: rounding, overflow and NaN of the
  float32 arithmetic of the library are not part of this model. The functions below
  are the arithmetic of the layers on tensors of the shapes the layers were built for;
  what the library does on other shapes (raising or broadcasting) is not modelled, and
  every theorem states the shapes it assumes.
\<close>

definition shape2 :: "'a list list \<Rightarrow> nat \<Rightarrow> nat \<Rightarrow> bool" where
  "shape2 x H N \<longleftrightarrow> length x = H \<and> list_all (\<lambda>r. length r = N) x"

definition shape3 :: "'a list list list \<Rightarrow> nat \<Rightarrow> nat \<Rightarrow> nat \<Rightarrow> bool" where
  "shape3 x B H L \<longleftrightarrow> length x = B \<and> list_all (\<lambda>m. shape2 m H L) x"

text \<open>An elementwise binary operation on two matrices of the same shape.\<close>

definition ew2 :: "('a \<Rightarrow> 'b \<Rightarrow> 'c) \<Rightarrow> 'a list list \<Rightarrow> 'b list list \<Rightarrow> 'c list list" where
  "ew2 f x y = map2 (map2 f) x y"

text \<open>\<open>torch.einsum("hn, hnl -> hl", C, E)\<close>, where \<open>L\<close> is the last dimension of \<open>E\<close>.\<close>

definition einsum_hn_hnl :: "complex list list \<Rightarrow> complex list list list \<Rightarrow> nat \<Rightarrow> complex list list" where
  "einsum_hn_hnl C E L =
     map2 (\<lambda>c e. map (\<lambda>l. sum_list (map2 (\<lambda>cn en. cn * en ! l) c e)) [0..<L]) C E"

text \<open>\<open>torch.view_as_real\<close> and \<open>torch.view_as_complex\<close>: a complex entry is stored as the
  pair of its real and imaginary part.\<close>

definition view_as_real :: "complex list list \<Rightarrow> (real \<times> real) list list" where
  "view_as_real x = map (map (\<lambda>z. (Re z, Im z))) x"

definition view_as_complex :: "(real \<times> real) list list \<Rightarrow> complex list list" where
  "view_as_complex x = map (map (\<lambda>(a, b). Complex a b)) x"


section \<open>S4DKernel\<close>

text \<open>
  A tensor attribute of a module is either a buffer (not trained) or a parameter; a
  parameter may carry the attribute \<open>_optim\<close>, a dictionary of optimizer settings.
\<close>

datatype 'a registered = Buffer 'a | Parameter 'a "(string \<rightharpoonup> real) option"

fun tensor_of :: "'a registered \<Rightarrow> 'a" where
  "tensor_of (Buffer t) = t"
| "tensor_of (Parameter t _) = t"

text \<open>\<open>S4DKernel.register\<close>: the attribute that \<open>register(name, tensor, lr)\<close> sets.\<close>

definition register :: "'a \<Rightarrow> real option \<Rightarrow> 'a registered" where
  "register tensor lr =
     (if lr = Some 0 then Buffer tensor
      else Parameter tensor
             (Some (let optim = [''weight_decay'' \<mapsto> 0]
                    in case lr of None \<Rightarrow> optim | Some v \<Rightarrow> optim(''lr'' \<mapsto> v))))"

record S4DKernel =
  C :: "(real \<times> real) list list registered"
  log_dt :: "real list registered"
  log_A_real :: "real list list registered"
  A_imag :: "real list list registered"
  length_buf :: "nat list registered"

text \<open>Line 107 of \<open>S4DKernel.forward\<close>: \<open>A = -torch.exp(self.log_A_real) + 1j * self.A_imag\<close>.\<close>

definition pole_matrix :: "S4DKernel \<Rightarrow> complex list list" where
  "pole_matrix self =
     ew2 (\<lambda>re im. re + im)
       (map (map (\<lambda>x. - complex_of_real (exp x))) (tensor_of (log_A_real self)))
       (map (map (\<lambda>y. \<i> * complex_of_real y)) (tensor_of (A_imag self)))"

definition S4DKernel_forward :: "S4DKernel \<Rightarrow> real list list" where
  "S4DKernel_forward self =
     (let dt = map exp (tensor_of (log_dt self));
          C0 = view_as_complex (tensor_of (C self));
          A = pole_matrix self;
          dtA = map2 (\<lambda>row d. map (\<lambda>a. a * complex_of_real d) row) A dt;
          K = map (map (\<lambda>z. map (\<lambda>l. z * of_nat l) (tensor_of (length_buf self)))) dtA;
          C1 = ew2 (\<lambda>c a. c / a) (ew2 (\<lambda>c e. c * (e - 1)) C0 (map (map exp) dtA)) A;
          K1 = einsum_hn_hnl C1 (map (map (map exp)) K) (length (tensor_of (length_buf self)))
      in map (map (\<lambda>z. 2 * Re z)) K1)"

text \<open>The shapes of the tensors of a kernel with \<open>H\<close> channels, \<open>N2 = N // 2\<close> modes and
  length \<open>L\<close>; \<open>length\<close> is \<open>torch.arange(L)\<close>.\<close>

definition kernel_shaped :: "S4DKernel \<Rightarrow> nat \<Rightarrow> nat \<Rightarrow> nat \<Rightarrow> bool" where
  "kernel_shaped self H N2 L \<longleftrightarrow>
     length (tensor_of (log_dt self)) = H \<and>
     shape2 (tensor_of (C self)) H N2 \<and>
     shape2 (tensor_of (log_A_real self)) H N2 \<and>
     shape2 (tensor_of (A_imag self)) H N2 \<and>
     tensor_of (length_buf self) = [0..<L]"



section \<open>Errors\<close>

text \<open>The only exception raised here is Python's \<open>ValueError\<close>, with its message.\<close>

datatype error = ValueError string


section \<open>DropoutNd\<close>

record DropoutNd =
  p_nd :: real
  tie :: bool
  transposed_nd :: bool

definition DropoutNd_init :: "real \<Rightarrow> bool \<Rightarrow> bool \<Rightarrow> error + DropoutNd" where
  "DropoutNd_init p0 tie0 transposed0 =
     (if p0 < 0 \<or> p0 \<ge> 1
      then Inl (ValueError ''dropout probability has to be in [0, 1), but got {}'')
      else Inr \<lparr>p_nd = p0, tie = tie0, transposed_nd = transposed0\<rparr>)"

text \<open>
  \<open>DropoutNd.forward\<close> on a tensor of rank 3. \<open>rnd b d l\<close> is the entry \<open>(b, d, l)\<close> of
  \<open>torch.rand(*mask_shape)\<close>; a tied mask has shape \<open>(b, d, 1)\<close> and is broadcast along
  the last axis.
\<close>

definition DropoutNd_forward ::
  "bool \<Rightarrow> DropoutNd \<Rightarrow> (nat \<Rightarrow> nat \<Rightarrow> nat \<Rightarrow> real) \<Rightarrow> real list list list \<Rightarrow> real list list list" where
  "DropoutNd_forward training self rnd X =
     (if training then
        (let X1 = (if \<not> transposed_nd self then map transpose X else X);
             keep = (\<lambda>b d l. rnd b d (if tie self then 0 else l) < 1.0 - p_nd self);
             X2 = map (\<lambda>(b, m). map (\<lambda>(d, row). map (\<lambda>(l, x).
                        x * (if keep b d l then 1 else 0) * (1.0 / (1 - p_nd self)))
                      (enumerate 0 row)) (enumerate 0 m)) (enumerate 0 X1)
         in if \<not> transposed_nd self then map transpose X2 else X2)
      else X)"


section \<open>Library modules\<close>

text \<open>
  The modules of PyTorch that the model is built from, with the behaviour the library
  documents for them.
\<close>

subsection \<open>torch.nn.Dropout1d\<close>

record Dropout1d =
  p_drop :: real

text \<open>The constructor of the library's dropout modules rejects \<open>p < 0\<close> and \<open>p > 1\<close>.\<close>

definition dropout_error :: error where
  "dropout_error = ValueError ''dropout probability has to be between 0 and 1, but got {}''"

definition Dropout1d_init :: "real \<Rightarrow> error + Dropout1d" where
  "Dropout1d_init p0 =
     (if p0 < 0 \<or> p0 > 1 then Inl dropout_error else Inr \<lparr>p_drop = p0\<rparr>)"

text \<open>In training mode a whole channel \<open>(b, c)\<close> is kept where \<open>keep b c\<close> holds, and
  scaled by \<open>1 / (1 - p)\<close>; in evaluation mode the module is the identity.\<close>

definition Dropout1d_forward ::
  "bool \<Rightarrow> Dropout1d \<Rightarrow> (nat \<Rightarrow> nat \<Rightarrow> bool) \<Rightarrow> real list list list \<Rightarrow> real list list list" where
  "Dropout1d_forward training self keep x =
     (if training then
        map (\<lambda>(b, m). map (\<lambda>(c, row). map (\<lambda>v.
               v * (if keep b c then 1 else 0) / (1 - p_drop self)) row) (enumerate 0 m))
            (enumerate 0 x)
      else x)"

subsection \<open>torch.nn.Linear\<close>

record Linear =
  lin_weight :: "real list list"
  lin_bias :: "real list"

definition Linear_init :: "nat \<Rightarrow> nat \<Rightarrow> (nat \<Rightarrow> nat \<Rightarrow> real) \<Rightarrow> (nat \<Rightarrow> real) \<Rightarrow> Linear" where
  "Linear_init in_features out_features w0 b0 =
     \<lparr>lin_weight = map (\<lambda>j. map (w0 j) [0..<in_features]) [0..<out_features],
      lin_bias = map b0 [0..<out_features]\<rparr>"

definition Linear_forward :: "Linear \<Rightarrow> real list \<Rightarrow> real list" where
  "Linear_forward self v =
     map2 (\<lambda>w b. sum_list (map2 (*) v w) + b) (lin_weight self) (lin_bias self)"

subsection \<open>torch.nn.LayerNorm\<close>

record LayerNorm =
  ln_weight :: "real list"
  ln_bias :: "real list"
  ln_eps :: real

definition LayerNorm_init :: "nat \<Rightarrow> LayerNorm" where
  "LayerNorm_init d = \<lparr>ln_weight = replicate d 1, ln_bias = replicate d 0, ln_eps = 1 / 100000\<rparr>"

definition LayerNorm_forward :: "LayerNorm \<Rightarrow> real list \<Rightarrow> real list" where
  "LayerNorm_forward self v =
     (let n = real (length v);
          mu = sum_list v / n;
          var = sum_list (map (\<lambda>x. (x - mu)\<^sup>2) v) / n
      in map2 (\<lambda>(x, w) b. (x - mu) / sqrt (var + ln_eps self) * w + b)
              (zip v (ln_weight self)) (ln_bias self))"

subsection \<open>torch.nn.Conv1d with kernel size 1, GLU, GELU\<close>

record Conv1d =
  conv_weight :: "real list list"
  conv_bias :: "real list"

definition Conv1d_init :: "nat \<Rightarrow> nat \<Rightarrow> (nat \<Rightarrow> nat \<Rightarrow> real) \<Rightarrow> (nat \<Rightarrow> real) \<Rightarrow> Conv1d" where
  "Conv1d_init in_channels out_channels w0 b0 =
     \<lparr>conv_weight = map (\<lambda>j. map (w0 j) [0..<in_channels]) [0..<out_channels],
      conv_bias = map b0 [0..<out_channels]\<rparr>"

text \<open>On one batch element \<open>m\<close> of shape \<open>(channels, length)\<close>.\<close>

definition Conv1d_forward :: "Conv1d \<Rightarrow> real list list \<Rightarrow> real list list" where
  "Conv1d_forward self m =
     map2 (\<lambda>w b. map (\<lambda>col. sum_list (map2 (*) w col) + b) (transpose m))
          (conv_weight self) (conv_bias self)"

definition sigmoid :: "real \<Rightarrow> real" where
  "sigmoid x = 1 / (1 + exp (- x))"

text \<open>\<open>GLU(dim=-2)\<close> on one batch element: the first half of the channels, gated by the
  second half.\<close>

definition GLU :: "real list list \<Rightarrow> real list list" where
  "GLU m = (let h = length m div 2
            in ew2 (\<lambda>a b. a * sigmoid b) (take h m) (drop h m))"

definition erf :: "real \<Rightarrow> real" where
  "erf x = 2 / sqrt pi * (\<Sum>n. (- 1) ^ n * x ^ (2 * n + 1) / (fact n * real (2 * n + 1)))"

definition GELU :: "real \<Rightarrow> real" where
  "GELU x = x * (1 / 2) * (1 + erf (x / sqrt 2))"

subsection \<open>torch.fft.rfft and torch.fft.irfft\<close>

text \<open>The signal is trimmed or padded with zeros to the length \<open>n\<close>.\<close>

definition resize :: "nat \<Rightarrow> 'a::zero list \<Rightarrow> 'a list" where
  "resize n xs = take n xs @ replicate (n - length xs) 0"

text \<open>The one-sided discrete Fourier transform of a real signal: the bins \<open>0 .. n div 2\<close>.\<close>

definition rfft :: "real list \<Rightarrow> nat \<Rightarrow> complex list" where
  "rfft xs n =
     (let x = resize n xs
      in map (\<lambda>k. \<Sum>t<n. complex_of_real (x ! t) * cis (- (2 * pi * real k * real t / real n)))
             [0..<n div 2 + 1])"

text \<open>
  The inverse of \<open>rfft\<close>: the one-sided spectrum is extended to all \<open>n\<close> bins by
  Hermitian symmetry and the real part of the inverse transform is returned.
\<close>

definition irfft :: "complex list \<Rightarrow> nat \<Rightarrow> real list" where
  "irfft ys n =
     (let y = resize (n div 2 + 1) ys;
          full = (\<lambda>k. if k \<le> n div 2 then y ! k else cnj (y ! (n - k)))
      in map (\<lambda>t. Re (\<Sum>k<n. full k * cis (2 * pi * real k * real t / real n)) / real n)
             [0..<n])"


section \<open>S4D\<close>

record S4D =
  transposed :: bool
  D :: "real list"
  length_s4d :: nat
  kernel :: S4DKernel
  dropout :: Dropout1d
  output_linear :: Conv1d

text \<open>Lines 181 to 185 of \<open>S4D.forward\<close>: the convolution of \<open>u\<close> with the kernel \<open>k\<close>.\<close>

definition fft_conv :: "nat \<Rightarrow> real list list \<Rightarrow> real list list list \<Rightarrow> real list list list" where
  "fft_conv L k u =
     (let k_f = map (\<lambda>row. rfft row (2 * L)) k;
          u_f = map (map (\<lambda>row. rfft row (2 * L))) u
      in map (\<lambda>m. map (\<lambda>row. take L (irfft row (2 * L))) (ew2 (*) m k_f)) u_f)"

text \<open>Line 189: \<open>y + u * self.D.unsqueeze(-1)\<close>.\<close>

definition add_skip :: "real list list list \<Rightarrow> real list list list \<Rightarrow> real list \<Rightarrow> real list list list" where
  "add_skip y u D0 =
     map2 (ew2 (+)) y (map (\<lambda>m. map2 (\<lambda>row d. map (\<lambda>v. v * d) row) m D0) u)"

definition S4D_forward ::
  "bool \<Rightarrow> S4D \<Rightarrow> (nat \<Rightarrow> nat \<Rightarrow> bool) \<Rightarrow> real list list list \<Rightarrow> real list list list \<times> unit option" where
  "S4D_forward training self keep u0 =
     (let u = (if \<not> transposed self then map transpose u0 else u0);
          k = S4DKernel_forward (kernel self);
          y = fft_conv (length_s4d self) k u;
          y = add_skip y u (D self);
          y = Dropout1d_forward training (dropout self) keep (map (map (map GELU)) y);
          y = map (\<lambda>m. GLU (Conv1d_forward (output_linear self) m)) y;
          y = (if \<not> transposed self then map transpose y else y)
      in (y, None))"


section \<open>S4Model\<close>

record S4Model =
  prenorm :: bool
  encoder :: Linear
  s4_layers :: "S4D list"
  norms :: "LayerNorm list"
  dropouts :: "Dropout1d list"
  decoder :: Linear

text \<open>\<open>norm(z.transpose(-1, -2)).transpose(-1, -2)\<close>.\<close>

definition norm_channels :: "LayerNorm \<Rightarrow> real list list list \<Rightarrow> real list list list" where
  "norm_channels nrm z = map transpose (map (map (LayerNorm_forward nrm)) (map transpose z))"

text \<open>
  The loop over \<open>zip(self.s4_layers, self.norms, self.dropouts)\<close>. \<open>rnd i\<close> is the
  mask drawn by the \<open>i\<close>-th dropout call from here on; each layer makes two calls.
\<close>

fun residual_loop ::
  "bool \<Rightarrow> bool \<Rightarrow> (S4D \<times> LayerNorm \<times> Dropout1d) list \<Rightarrow> (nat \<Rightarrow> nat \<Rightarrow> nat \<Rightarrow> bool)
     \<Rightarrow> real list list list \<Rightarrow> real list list list" where
  "residual_loop training pre [] rnd x = x"
| "residual_loop training pre ((layer, nrm, drp) # rest) rnd x =
     (let z = x;
          z = (if pre then norm_channels nrm z else z);
          z = fst (S4D_forward training layer (rnd 0) z);
          z = Dropout1d_forward training drp (rnd 1) z;
          x = map2 (ew2 (+)) z x;
          x = (if \<not> pre then norm_channels nrm x else x)
      in residual_loop training pre rest (\<lambda>i. rnd (i + 2)) x)"

text \<open>\<open>x.mean(dim=1)\<close> on one batch element of shape \<open>(length, channels)\<close>.\<close>

definition mean_dim1 :: "real list list \<Rightarrow> real list" where
  "mean_dim1 m = map (\<lambda>col. sum_list col / real (length col)) (transpose m)"

definition S4Model_forward ::
  "bool \<Rightarrow> S4Model \<Rightarrow> (nat \<Rightarrow> nat \<Rightarrow> nat \<Rightarrow> bool) \<Rightarrow> real list list list \<Rightarrow> real list list" where
  "S4Model_forward training self rnd x0 =
     (let x = map transpose x0;
          x = map (map (Linear_forward (encoder self))) x;
          x = map transpose x;
          x = residual_loop training (prenorm self)
                (zip (s4_layers self) (zip (norms self) (dropouts self))) rnd x;
          x = map transpose x;
          x = map mean_dim1 x
      in map (Linear_forward (decoder self)) x)"


section \<open>Construction\<close>

text \<open>
  The random draws and the library's default initial weights are arguments of the
  constructors: \<open>rand_log_dt i\<close> is the entry \<open>i\<close> of \<open>torch.rand(H)\<close>, and so on.
\<close>

record S4D_draws =
  rand_log_dt :: "nat \<Rightarrow> real"
  randn_C :: "nat \<Rightarrow> nat \<Rightarrow> complex"
  randn_D :: "nat \<Rightarrow> real"
  init_conv_weight :: "nat \<Rightarrow> nat \<Rightarrow> real"
  init_conv_bias :: "nat \<Rightarrow> real"

text \<open>\<open>math.log\<close> raises \<open>ValueError\<close> outside the positive numbers, so the constructor
  fails there before any tensor is made.\<close>

definition S4DKernel_init ::
  "nat \<Rightarrow> nat \<Rightarrow> nat \<Rightarrow> real \<Rightarrow> real \<Rightarrow> real option \<Rightarrow> S4D_draws \<Rightarrow> error + S4DKernel" where
  "S4DKernel_init d_model len N dt_min dt_max lr draws =
     (if dt_max \<le> 0 \<or> dt_min \<le> 0 then Inl (ValueError ''math domain error'')
      else
        (let H = d_model;
             log_dt0 = map (\<lambda>i. rand_log_dt draws i * (ln dt_max - ln dt_min) + ln dt_min) [0..<H];
             C0 = map (\<lambda>h. map (randn_C draws h) [0..<N div 2]) [0..<H];
             log_A_real0 = map (map ln) (map (map (\<lambda>x. 0.5 * x)) (replicate H (replicate (N div 2) 1)));
             A_imag0 = map (map (\<lambda>n. pi * real n)) (replicate H [0..<N div 2])
         in Inr \<lparr>C = Parameter (view_as_real C0) None,
                 log_dt = register log_dt0 lr,
                 log_A_real = register log_A_real0 lr,
                 A_imag = register A_imag0 lr,
                 length_buf = Buffer [0..<len]\<rparr>))"

definition S4D_init ::
  "nat \<Rightarrow> nat \<Rightarrow> nat \<Rightarrow> real \<Rightarrow> bool \<Rightarrow> real \<Rightarrow> real \<Rightarrow> real option \<Rightarrow> S4D_draws \<Rightarrow> error + S4D" where
  "S4D_init d_model len d_state dropout0 transposed0 dt_min dt_max lr draws =
     (case S4DKernel_init d_model len d_state dt_min dt_max lr draws of
        Inl e \<Rightarrow> Inl e
      | Inr k \<Rightarrow>
          (case Dropout1d_init dropout0 of
             Inl e \<Rightarrow> Inl e
           | Inr drp \<Rightarrow>
               Inr \<lparr>transposed = transposed0,
                    D = map (randn_D draws) [0..<d_model],
                    length_s4d = len,
                    kernel = k,
                    dropout = drp,
                    output_linear = Conv1d_init d_model (2 * d_model)
                                      (init_conv_weight draws) (init_conv_bias draws)\<rparr>))"

record S4Model_draws =
  init_encoder_weight :: "nat \<Rightarrow> nat \<Rightarrow> real"
  init_encoder_bias :: "nat \<Rightarrow> real"
  layer_draws :: "nat \<Rightarrow> S4D_draws"
  init_decoder_weight :: "nat \<Rightarrow> nat \<Rightarrow> real"
  init_decoder_bias :: "nat \<Rightarrow> real"

text \<open>
  The loop \<open>for _ in range(n_layers)\<close> of \<open>S4Model.__init__\<close>, over the indices that are
  left; \<open>mk i\<close> constructs the \<open>i\<close>-th \<open>S4D\<close>.
\<close>

fun init_layers ::
  "(nat \<Rightarrow> error + S4D) \<Rightarrow> nat \<Rightarrow> real \<Rightarrow> nat list
     \<Rightarrow> S4D list \<times> LayerNorm list \<times> Dropout1d list
     \<Rightarrow> error + S4D list \<times> LayerNorm list \<times> Dropout1d list" where
  "init_layers mk d_model dropout0 [] acc = Inr acc"
| "init_layers mk d_model dropout0 (i # rest) (ls, ns, ds) =
     (case mk i of
        Inl e \<Rightarrow> Inl e
      | Inr layer \<Rightarrow>
          (case Dropout1d_init dropout0 of
             Inl e \<Rightarrow> Inl e
           | Inr drp \<Rightarrow>
               init_layers mk d_model dropout0 rest
                 (ls @ [layer], ns @ [LayerNorm_init d_model], ds @ [drp])))"

text \<open>Lines 225 and 226: \<open>if lr is not None: lr = min(0.001, lr)\<close>.\<close>

definition clamp_lr :: "real option \<Rightarrow> real option" where
  "clamp_lr lr = (case lr of None \<Rightarrow> None | Some v \<Rightarrow> Some (if v < 0.001 then v else 0.001))"

definition S4Model_init ::
  "nat \<Rightarrow> nat \<Rightarrow> nat \<Rightarrow> nat \<Rightarrow> nat \<Rightarrow> nat \<Rightarrow> real \<Rightarrow> bool \<Rightarrow> real \<Rightarrow> real \<Rightarrow> real option
     \<Rightarrow> S4Model_draws \<Rightarrow> error + S4Model" where
  "S4Model_init d_input len d_output d_model d_state n_layers dropout0 prenorm0 dt_min dt_max lr0 draws =
     (let enc = Linear_init d_input d_model (init_encoder_weight draws) (init_encoder_bias draws);
          lr = clamp_lr lr0
      in case init_layers
                (\<lambda>i. S4D_init d_model len d_state dropout0 True dt_min dt_max lr (layer_draws draws i))
                d_model dropout0 [0..<n_layers] ([], [], []) of
           Inl e \<Rightarrow> Inl e
         | Inr (ls, ns, ds) \<Rightarrow>
             Inr \<lparr>prenorm = prenorm0,
                  encoder = enc,
                  s4_layers = ls,
                  norms = ns,
                  dropouts = ds,
                  decoder = Linear_init d_model d_output
                              (init_decoder_weight draws) (init_decoder_bias draws)\<rparr>)"


section \<open>Shapes of a constructed model\<close>

text \<open>
  The shapes that the constructors give the tensors of a model with input dimension
  \<open>d_input\<close>, sequence length \<open>L\<close>, \<open>d_model\<close> channels, \<open>N2 = d_state // 2\<close> modes,
  \<open>n_layers\<close> layers and output dimension \<open>d_output\<close>. The optimizer changes the
  entries of the tensors and never their shapes.
\<close>

definition Linear_shaped :: "Linear \<Rightarrow> nat \<Rightarrow> nat \<Rightarrow> bool" where
  "Linear_shaped lin in_features out_features \<longleftrightarrow>
     shape2 (lin_weight lin) out_features in_features \<and> length (lin_bias lin) = out_features"

definition LayerNorm_shaped :: "LayerNorm \<Rightarrow> nat \<Rightarrow> bool" where
  "LayerNorm_shaped nrm d \<longleftrightarrow> length (ln_weight nrm) = d \<and> length (ln_bias nrm) = d"

definition S4D_shaped :: "S4D \<Rightarrow> nat \<Rightarrow> nat \<Rightarrow> nat \<Rightarrow> bool" where
  "S4D_shaped s H N2 L \<longleftrightarrow>
     transposed s \<and> length (D s) = H \<and> length_s4d s = L \<and>
     kernel_shaped (kernel s) H N2 L \<and>
     shape2 (conv_weight (output_linear s)) (2 * H) H \<and>
     length (conv_bias (output_linear s)) = 2 * H"

definition S4Model_shaped :: "S4Model \<Rightarrow> nat \<Rightarrow> nat \<Rightarrow> nat \<Rightarrow> nat \<Rightarrow> nat \<Rightarrow> nat \<Rightarrow> bool" where
  "S4Model_shaped m d_input L d_output d_model N2 n_layers \<longleftrightarrow>
     Linear_shaped (encoder m) d_input d_model \<and>
     length (s4_layers m) = n_layers \<and> list_all (\<lambda>s. S4D_shaped s d_model N2 L) (s4_layers m) \<and>
     length (norms m) = n_layers \<and> list_all (\<lambda>nrm. LayerNorm_shaped nrm d_model) (norms m) \<and>
     length (dropouts m) = n_layers \<and>
     Linear_shaped (decoder m) d_model d_output"


section \<open>The specification's own words\<close>

text \<open>
  The entry \<open>(h, t)\<close> of the kernel in the words of the specification:
  \<open>dt[h] = exp(log_dt[h])\<close>, \<open>A[h,n] = -exp(log_A_real[h,n]) + i A_imag[h,n]\<close>,
  \<open>dtA[h,n] = A[h,n] dt[h]\<close>, \<open>C'[h,n] = C[h,n] (exp(dtA[h,n]) - 1) / A[h,n]\<close> and the value
  \<open>2 Re (\<Sum>n. C'[h,n] exp(dtA[h,n] t))\<close>, the sum over the \<open>N2\<close> modes.
\<close>

definition spec_kernel_entry :: "S4DKernel \<Rightarrow> nat \<Rightarrow> nat \<Rightarrow> nat \<Rightarrow> real" where
  "spec_kernel_entry self N2 h t =
     (let dt = exp (tensor_of (log_dt self) ! h);
          A = (\<lambda>n. - complex_of_real (exp (tensor_of (log_A_real self) ! h ! n))
                    + \<i> * complex_of_real (tensor_of (A_imag self) ! h ! n));
          dtA = (\<lambda>n. A n * complex_of_real dt);
          Cs = (\<lambda>n. case tensor_of (C self) ! h ! n of (a, b) \<Rightarrow> Complex a b);
          C' = (\<lambda>n. Cs n * (exp (dtA n) - 1) / A n)
      in 2 * Re (\<Sum>n<N2. C' n * exp (dtA n * of_nat t)))"


text \<open>
  The direct causal convolution in the time domain, in the words of the specification:
  \<open>y[b,h,t]\<close> is the sum of \<open>k[h,s] u[b,h,t-s]\<close> over \<open>s\<close> from \<open>0\<close> to \<open>t\<close>.
\<close>

definition direct_conv :: "nat \<Rightarrow> real list list \<Rightarrow> real list list list \<Rightarrow> real list list list" where
  "direct_conv L k u =
     map (\<lambda>m. map2 (\<lambda>krow urow. map (\<lambda>t. \<Sum>s\<le>t. krow ! s * urow ! (t - s)) [0..<L]) k m) u"

text \<open>
  What the specification says of a registered tensor, given the learning rate \<open>lr\<close>
  that was supplied: a buffer when \<open>lr\<close> is exactly 0, and otherwise a parameter whose
  \<open>_optim\<close> record has \<open>weight_decay\<close> 0 and, when \<open>lr\<close> was supplied, that \<open>lr\<close>.
\<close>

definition claimed_registration :: "'a registered \<Rightarrow> real option \<Rightarrow> bool" where
  "claimed_registration r lr =
     (case r of
        Buffer t \<Rightarrow> lr = Some 0
      | Parameter t None \<Rightarrow> False
      | Parameter t (Some optim) \<Rightarrow>
          lr \<noteq> Some 0 \<and> optim ''weight_decay'' = Some 0 \<and>
          (case lr of None \<Rightarrow> True | Some v \<Rightarrow> optim ''lr'' = Some v))"


section \<open>Example values\<close>

text \<open>A kernel with one channel, one mode and length 2.\<close>

definition example_kernel :: S4DKernel where
  "example_kernel =
     \<lparr>C = Parameter [[(1, 0)]] None,
      log_dt = Parameter [0] None,
      log_A_real = Parameter [[0]] None,
      A_imag = Parameter [[0]] None,
      length_buf = Buffer [0..<2]\<rparr>"

text \<open>Initial draws that are the same everywhere.\<close>

definition example_draws :: S4D_draws where
  "example_draws =
     \<lparr>rand_log_dt = (\<lambda>i. 1 / 2),
      randn_C = (\<lambda>h n. 1),
      randn_D = (\<lambda>h. 1),
      init_conv_weight = (\<lambda>i j. 1),
      init_conv_bias = (\<lambda>i. 0)\<rparr>"

definition example_model_draws :: S4Model_draws where
  "example_model_draws =
     \<lparr>init_encoder_weight = (\<lambda>i j. 1),
      init_encoder_bias = (\<lambda>i. 0),
      layer_draws = (\<lambda>i. example_draws),
      init_decoder_weight = (\<lambda>i j. 1),
      init_decoder_bias = (\<lambda>i. 0)\<rparr>"



section \<open>Properties of the kernel\<close>

lemma shape2_nth: "shape2 x H N \<Longrightarrow> h < H \<Longrightarrow> length (x ! h) = N"
  by (simp add: shape2_def list_all_length)

lemma shape2_length: "shape2 x H N \<Longrightarrow> length x = H"
  by (simp add: shape2_def)

lemma sum_list_map2_nth:
  fixes f :: "'a \<Rightarrow> 'b \<Rightarrow> 'c::comm_monoid_add"
  assumes "length xs = N" "length ys = N"
  shows "sum_list (map2 f xs ys) = (\<Sum>n<N. f (xs ! n) (ys ! n))"
proof -
  have "sum_list (map2 f xs ys) = (\<Sum>n = 0..<length (map2 f xs ys). map2 f xs ys ! n)"
    by (rule sum_list_sum_nth)
  also have "\<dots> = (\<Sum>n<N. f (xs ! n) (ys ! n))"
    using assms by (simp add: atLeast0LessThan)
  finally show ?thesis .
qed



lemma S4DKernel_forward_shape:
  assumes "kernel_shaped self H N2 L"
  shows "shape2 (S4DKernel_forward self) H L"
  using assms
  by (auto simp add: kernel_shaped_def S4DKernel_forward_def Let_def einsum_hn_hnl_def
        ew2_def pole_matrix_def view_as_complex_def shape2_def list_all_length)

lemma S4DKernel_forward_nth:
  assumes "kernel_shaped self H N2 L" "h < H" "t < L"
  shows "S4DKernel_forward self ! h ! t = spec_kernel_entry self N2 h t"
proof -
  from assms have len: "length (tensor_of (log_dt self)) = H"
    and sC: "shape2 (tensor_of (C self)) H N2"
    and sR: "shape2 (tensor_of (log_A_real self)) H N2"
    and sI: "shape2 (tensor_of (A_imag self)) H N2"
    and lb: "tensor_of (length_buf self) = [0..<L]"
    by (simp_all add: kernel_shaped_def)
  note ls = shape2_length [OF sC] shape2_length [OF sR] shape2_length [OF sI]
    shape2_nth [OF sC \<open>h < H\<close>] shape2_nth [OF sR \<open>h < H\<close>] shape2_nth [OF sI \<open>h < H\<close>]
  show ?thesis
    unfolding S4DKernel_forward_def spec_kernel_entry_def Let_def einsum_hn_hnl_def ew2_def
      pole_matrix_def view_as_complex_def
    using assms(2,3) len lb ls
    apply simp
    apply (subst sum_list_map2_nth [where N = N2])
      apply simp_all
    done
qed

text \<open>
  Claim C1. For a kernel with \<open>H\<close> channels, \<open>N2\<close> modes and length \<open>L\<close>,
  \<open>S4DKernel.forward\<close> returns a real tensor of shape \<open>(H, L)\<close> whose entry \<open>(h, t)\<close> is
  \<open>2 Re (\<Sum>n. C'[h,n] exp(dtA[h,n] t))\<close>, with \<open>dt\<close>, \<open>A\<close>, \<open>dtA\<close> and \<open>C'\<close> as the
  specification defines them.
\<close>

theorem S4DKernel_forward_closed_form:
  assumes "kernel_shaped self H N2 L"
  shows "shape2 (S4DKernel_forward self) H L \<and>
         (\<forall>h<H. \<forall>t<L. S4DKernel_forward self ! h ! t = spec_kernel_entry self N2 h t)"
  using assms S4DKernel_forward_shape S4DKernel_forward_nth by blast

theorem S4DKernel_forward_closed_form_witness:
  "kernel_shaped example_kernel 1 1 2 \<and>
   shape2 (S4DKernel_forward example_kernel) 1 2 \<and>
   S4DKernel_forward example_kernel ! 0 ! 1 = spec_kernel_entry example_kernel 1 0 1"
proof -
  have w: "kernel_shaped example_kernel 1 1 2"
    by (simp add: kernel_shaped_def example_kernel_def shape2_def)
  show ?thesis
    using w S4DKernel_forward_closed_form [OF w] by simp
qed




section \<open>Construction: registration, initial values, validation\<close>

lemma register_claimed: "claimed_registration (register t lr) lr"
  by (cases lr) (simp_all add: register_def claimed_registration_def)

lemma S4DKernel_init_Inr:
  assumes "S4DKernel_init H L N dt_min dt_max lr draws = Inr k"
  shows "0 < dt_min \<and> 0 < dt_max \<and>
     k = \<lparr>C = Parameter (view_as_real (map (\<lambda>h. map (randn_C draws h) [0..<N div 2]) [0..<H])) None,
          log_dt = register (map (\<lambda>i. rand_log_dt draws i * (ln dt_max - ln dt_min) + ln dt_min) [0..<H]) lr,
          log_A_real = register (map (map ln) (map (map (\<lambda>x. 0.5 * x)) (replicate H (replicate (N div 2) 1)))) lr,
          A_imag = register (map (map (\<lambda>n. pi * real n)) (replicate H [0..<N div 2])) lr,
          length_buf = Buffer [0..<L]\<rparr>"
  using assms by (auto simp add: S4DKernel_init_def Let_def split: if_splits)

text \<open>
  Claim C3, as amended. \<open>log_dt\<close>, \<open>log_A_real\<close> and \<open>A_imag\<close> are registered
  as the specification says: a buffer when the learning rate is exactly 0, otherwise a
  parameter whose \<open>_optim\<close> record has \<open>weight_decay\<close> 0 and the learning rate when
  one was supplied. \<open>C\<close> is not registered that way: it is always a parameter and
  carries no \<open>_optim\<close> record.
\<close>

theorem register_three_of_four:
  assumes "S4DKernel_init H L N dt_min dt_max lr draws = Inr k"
  shows "claimed_registration (log_dt k) lr \<and>
         claimed_registration (log_A_real k) lr \<and>
         claimed_registration (A_imag k) lr \<and>
         (\<exists>t. C k = Parameter t None)"
  using S4DKernel_init_Inr [OF assms] by (auto simp add: register_claimed)

text \<open>
  With the learning rate 0 the tensor \<open>C\<close> is neither a buffer nor a parameter with an
  \<open>_optim\<close> record, so the claim fails as stated for \<open>C\<close>.
\<close>

theorem C_not_registered_counterexample:
  "\<exists>k. S4DKernel_init 1 2 2 (1 / 1000) (1 / 10) (Some 0) example_draws = Inr k \<and>
       \<not> claimed_registration (C k) (Some 0)"
  by (simp add: S4DKernel_init_def Let_def claimed_registration_def)

theorem register_three_of_four_witness:
  "\<exists>k. S4DKernel_init 1 2 2 (1 / 1000) (1 / 10) (Some 0) example_draws = Inr k \<and>
         claimed_registration (log_dt k) (Some 0) \<and>
         claimed_registration (log_A_real k) (Some 0) \<and>
         claimed_registration (A_imag k) (Some 0) \<and>
         (\<exists>t. C k = Parameter t None)"
proof -
  obtain k where k: "S4DKernel_init 1 2 2 (1 / 1000) (1 / 10) (Some 0) example_draws = Inr k"
    by (simp add: S4DKernel_init_def Let_def)
  show ?thesis using k register_three_of_four [OF k] by blast
qed




lemma S4DKernel_init_ok:
  "0 < dt_min \<Longrightarrow> 0 < dt_max \<Longrightarrow> \<exists>k. S4DKernel_init H L N dt_min dt_max lr draws = Inr k"
  by (simp add: S4DKernel_init_def Let_def)

lemma S4D_init_raises_iff:
  assumes "0 < dt_min" "0 < dt_max"
  shows "S4D_init H L N p0 tr dt_min dt_max lr draws = Inl e \<longleftrightarrow>
           (p0 < 0 \<or> 1 < p0) \<and> e = dropout_error"
proof -
  obtain k where "S4DKernel_init H L N dt_min dt_max lr draws = Inr k"
    using S4DKernel_init_ok [OF assms] by blast
  then show ?thesis
    by (auto simp add: S4D_init_def Dropout1d_init_def dropout_error_def)
qed

lemma init_layers_Inl:
  assumes "\<And>i. mk i = Inl e"  "is \<noteq> []"
  shows "init_layers mk d p0 is acc = Inl e"
  using assms by (cases "is"; cases acc) simp_all

lemma init_layers_Inr:
  assumes "init_layers mk d p0 is (ls, ns, ds) = Inr (ls', ns', ds')"
  shows "\<exists>new. ls' = ls @ new \<and> length new = length is \<and> (\<forall>j<length is. mk (is ! j) = Inr (new ! j))"
  using assms
proof (induction "is" arbitrary: ls ns ds)
  case Nil
  then show ?case by simp
next
  case (Cons i rest)
  from Cons.prems obtain layer drp where mk: "mk i = Inr layer"
    and rec: "init_layers mk d p0 rest (ls @ [layer], ns @ [LayerNorm_init d], ds @ [drp]) = Inr (ls', ns', ds')"
    by (auto split: sum.splits)
  from Cons.IH [OF rec] obtain new where new: "ls' = (ls @ [layer]) @ new" "length new = length rest"
    "\<forall>j<length rest. mk (rest ! j) = Inr (new ! j)" by blast
  have "\<forall>j<length (i # rest). mk ((i # rest) ! j) = Inr ((layer # new) ! j)"
    using mk new(3) by (auto simp add: nth_Cons split: nat.splits)
  with new(1,2) show ?case
    by (intro exI [of _ "layer # new"]) simp
qed

lemma init_layers_ok:
  assumes "\<And>i. \<exists>l. mk i = Inr l" "0 \<le> p0" "p0 \<le> 1"
  shows "\<exists>r. init_layers mk d p0 is acc = Inr r"
proof (induction "is" arbitrary: acc)
  case Nil
  show ?case by (cases acc) simp
next
  case (Cons i rest)
  obtain l where "mk i = Inr l" using assms(1) by blast
  moreover obtain ls ns ds where "acc = (ls, ns, ds)" by (cases acc) auto
  ultimately show ?case using assms(2,3) Cons.IH
    by (simp add: Dropout1d_init_def)
qed

text \<open>
  Claim C8. Every layer that \<open>S4Model.__init__\<close> constructs is the \<open>S4D\<close> built with
  the learning rate \<open>min(0.001, lr)\<close> when \<open>lr\<close> is supplied, and with \<open>None\<close> when it is
  not.
\<close>

theorem S4Model_init_clamps_lr:
  assumes "S4Model_init d_input L d_output d_model d_state n_layers p0 pre dt_min dt_max lr draws = Inr m"
  shows "length (s4_layers m) = n_layers \<and>
         (\<forall>i<n_layers.
            S4D_init d_model L d_state p0 True dt_min dt_max
              (case lr of None \<Rightarrow> None | Some v \<Rightarrow> Some (min (1 / 1000) v)) (layer_draws draws i)
            = Inr (s4_layers m ! i))"
proof -
  let ?mk = "\<lambda>i. S4D_init d_model L d_state p0 True dt_min dt_max (clamp_lr lr) (layer_draws draws i)"
  from assms obtain ls ns ds where
    il: "init_layers ?mk d_model p0 [0..<n_layers] ([], [], []) = Inr (ls, ns, ds)"
    and m: "s4_layers m = ls"
    by (auto simp add: S4Model_init_def Let_def split: sum.splits)
  from init_layers_Inr [OF il] have "length ls = n_layers"
    and "\<forall>j<n_layers. ?mk j = Inr (ls ! j)" by auto
  moreover have "clamp_lr lr = (case lr of None \<Rightarrow> None | Some v \<Rightarrow> Some (min (1 / 1000) v))"
    by (cases lr) (auto simp add: clamp_lr_def min_def)
  ultimately show ?thesis using m by simp
qed

lemma S4Model_init_raises_iff:
  assumes "0 < dt_min" "0 < dt_max" "0 < n_layers"
  shows "S4Model_init d_input L d_output d_model d_state n_layers p0 pre dt_min dt_max lr draws = Inl e
         \<longleftrightarrow> (p0 < 0 \<or> 1 < p0) \<and> e = dropout_error"
proof -
  let ?mk = "\<lambda>i. S4D_init d_model L d_state p0 True dt_min dt_max (clamp_lr lr) (layer_draws draws i)"
  have ne: "[0..<n_layers] \<noteq> []" using assms(3) by simp
  show ?thesis
  proof (cases "p0 < 0 \<or> 1 < p0")
    case True
    then have "\<And>i. ?mk i = Inl dropout_error"
      using S4D_init_raises_iff [OF assms(1,2)] by blast
    from init_layers_Inl [of ?mk, OF this ne]
    show ?thesis using True by (auto simp add: S4Model_init_def Let_def)
  next
    case False
    then have "\<And>i. \<exists>l. ?mk i = Inr l"
      using S4D_init_raises_iff [OF assms(1,2)] by (metis sum.exhaust_sel isl_def sumE)
    from init_layers_ok [of ?mk, OF this] False
    obtain r where "init_layers ?mk d_model p0 [0..<n_layers] ([], [], []) = Inr r"
      by (metis not_le_imp_less le_less_linear)
    then show ?thesis using False
      by (cases r) (auto simp add: S4Model_init_def Let_def)
  qed
qed

lemma S4Model_init_ok:
  assumes "0 < dt_min" "0 < dt_max" "0 \<le> p0" "p0 \<le> 1"
  shows "\<exists>m. S4Model_init d_input L d_output d_model d_state n_layers p0 pre dt_min dt_max lr draws = Inr m"
proof -
  let ?mk = "\<lambda>i. S4D_init d_model L d_state p0 True dt_min dt_max (clamp_lr lr) (layer_draws draws i)"
  have "\<And>i. \<exists>l. ?mk i = Inr l"
    using S4D_init_raises_iff [OF assms(1,2)] assms(3,4)
    by (metis not_le sum.exhaust_sel isl_def sumE)
  from init_layers_ok [of ?mk, OF this assms(3,4)]
  obtain r where "init_layers ?mk d_model p0 [0..<n_layers] ([], [], []) = Inr r" by blast
  then show ?thesis
    by (cases r) (auto simp add: S4Model_init_def Let_def)
qed

text \<open>
  Claim C4, as amended. \<open>DropoutNd\<close> raises at construction exactly for a probability
  outside \<open>[0, 1)\<close>. \<open>S4D\<close> and \<open>S4Model\<close> do not construct a \<open>DropoutNd\<close> but the
  library's \<open>Dropout1d\<close>: for positive \<open>dt_min\<close> and \<open>dt_max\<close> (and at least one layer)
  their construction raises exactly for \<open>p < 0\<close> or \<open>p > 1\<close>.
\<close>

theorem dropout_validation:
  assumes "0 < dt_min" "0 < dt_max" "0 < n_layers"
  shows "(isl (DropoutNd_init p0 tie0 tr0) \<longleftrightarrow> p0 < 0 \<or> 1 \<le> p0) \<and>
         (isl (S4D_init d_model L d_state p0 tr dt_min dt_max lr sdraws) \<longleftrightarrow> p0 < 0 \<or> 1 < p0) \<and>
         (isl (S4Model_init d_input L d_output d_model d_state n_layers p0 pre dt_min dt_max lr draws)
            \<longleftrightarrow> p0 < 0 \<or> 1 < p0)"
proof -
  have a: "isl (DropoutNd_init p0 tie0 tr0) \<longleftrightarrow> p0 < 0 \<or> 1 \<le> p0"
    by (simp add: DropoutNd_init_def)
  have b: "isl (S4D_init d_model L d_state p0 tr dt_min dt_max lr sdraws) \<longleftrightarrow> p0 < 0 \<or> 1 < p0"
    using S4D_init_raises_iff [OF assms(1,2)] by (auto simp add: isl_def)
  have c: "isl (S4Model_init d_input L d_output d_model d_state n_layers p0 pre dt_min dt_max lr draws)
            \<longleftrightarrow> p0 < 0 \<or> 1 < p0"
    using S4Model_init_raises_iff [OF assms] by (auto simp add: isl_def)
  from a b c show ?thesis by blast
qed

theorem dropout_validation_witness:
  "(0::real) < 1 / 1000 \<and> (0::real) < 1 / 10 \<and> (0::nat) < 1 \<and>
   isl (DropoutNd_init (- (1 / 10)) True True) \<and>
   isl (S4D_init 4 16 2 (- (1 / 10)) True (1 / 1000) (1 / 10) None example_draws) \<and>
   isl (S4Model_init 3 16 5 4 2 1 (- (1 / 10)) False (1 / 1000) (1 / 10) None example_model_draws)"
proof -
  have a: "(0::real) < 1 / 1000" by simp
  have b: "(0::real) < 1 / 10" by simp
  have c: "(0::nat) < 1" by simp
  have "(isl (DropoutNd_init (- (1 / 10)) True True) \<longleftrightarrow> - (1 / 10) < (0::real) \<or> (1::real) \<le> - (1 / 10)) \<and>
        (isl (S4D_init 4 16 2 (- (1 / 10)) True (1 / 1000) (1 / 10) None example_draws)
           \<longleftrightarrow> - (1 / 10) < (0::real) \<or> (1::real) < - (1 / 10)) \<and>
        (isl (S4Model_init 3 16 5 4 2 1 (- (1 / 10)) False (1 / 1000) (1 / 10) None example_model_draws)
           \<longleftrightarrow> - (1 / 10) < (0::real) \<or> (1::real) < - (1 / 10))"
    by (rule dropout_validation [OF a b c])
  with a b c show ?thesis by simp
qed

text \<open>The probability 1.0 is outside \<open>[0, 1)\<close> and the model is constructed all the same.\<close>

theorem dropout_one_accepted_counterexample:
  "\<not> isl (S4D_init 4 16 2 1 True (1 / 1000) (1 / 10) None example_draws) \<and>
   \<not> isl (S4Model_init 3 16 5 4 2 1 1 False (1 / 1000) (1 / 10) None example_model_draws)"
  by (simp add: S4Model_init_def S4D_init_def S4DKernel_init_def Dropout1d_init_def Let_def)

theorem S4Model_init_clamps_lr_witness:
  "\<exists>m. S4Model_init 3 16 5 4 2 2 (1 / 5) False (1 / 1000) (1 / 10) (Some (1 / 100))
           example_model_draws = Inr m \<and>
       length (s4_layers m) = 2 \<and>
       S4D_init 4 16 2 (1 / 5) True (1 / 1000) (1 / 10) (Some (1 / 1000)) example_draws
         = Inr (s4_layers m ! 1)"
proof -
  have "\<exists>m. S4Model_init 3 16 5 4 2 2 (1 / 5) False (1 / 1000) (1 / 10) (Some (1 / 100))
           example_model_draws = Inr m"
    by (rule S4Model_init_ok) simp_all
  then obtain m where m: "S4Model_init 3 16 5 4 2 2 (1 / 5) False (1 / 1000) (1 / 10) (Some (1 / 100))
           example_model_draws = Inr m" ..
  have d: "layer_draws example_model_draws i = example_draws" for i
    by (simp add: example_model_draws_def)
  from S4Model_init_clamps_lr [OF m]
  have l: "length (s4_layers m) = 2"
    and "\<forall>i<2. S4D_init 4 16 2 (1 / 5) True (1 / 1000) (1 / 10) (Some (1 / 1000)) example_draws
               = Inr (s4_layers m ! i)"
    by (simp_all add: d min_def)
  then have "S4D_init 4 16 2 (1 / 5) True (1 / 1000) (1 / 10) (Some (1 / 1000)) example_draws
               = Inr (s4_layers m ! 1)"
    by simp
  with m l show ?thesis by blast
qed

lemma Dropout1d_forward_eval: "Dropout1d_forward False d keep x = x"
  by (simp add: Dropout1d_forward_def)

lemma DropoutNd_forward_eval: "DropoutNd_forward False d rnd x = x"
  by (simp add: DropoutNd_forward_def)

lemma S4D_forward_eval: "S4D_forward False l keep u = S4D_forward False l keep' u"
  by (simp add: S4D_forward_def Dropout1d_forward_eval)

lemma residual_loop_eval:
  "residual_loop False pre ls rnd x = residual_loop False pre ls rnd' x"
proof (induction ls arbitrary: rnd rnd' x)
  case Nil
  show ?case by simp
next
  case (Cons a ls)
  obtain layer nrm drp where a: "a = (layer, nrm, drp)" by (cases a) auto
  show ?case
    unfolding a residual_loop.simps Let_def Dropout1d_forward_eval
      S4D_forward_eval [of layer "rnd 0" _ "rnd' 0"]
    by (rule Cons.IH)
qed

text \<open>
  Claim C10. In evaluation mode the output of \<open>S4Model.forward\<close> does not depend on
  the random draws: every dropout module is the identity, and the output is a function
  of the parameters and the input alone.
\<close>

theorem S4Model_forward_eval_deterministic:
  "S4Model_forward False m rnd x = S4Model_forward False m rnd' x \<and>
   Dropout1d_forward False drp keep z = z \<and>
   DropoutNd_forward False dnd r z = z"
proof -
  have "S4Model_forward False m rnd x = S4Model_forward False m rnd' x"
    unfolding S4Model_forward_def Let_def
    by (simp add: residual_loop_eval [of _ _ rnd _ rnd'])
  then show ?thesis
    by (simp add: Dropout1d_forward_eval DropoutNd_forward_eval)
qed


section \<open>The convolution theorem\<close>

lemma cis_root_sum:
  fixes m :: int
  assumes "0 < n"
  shows "(\<Sum>k<n. cis (2 * pi * real k * real_of_int m / real n)) =
           (if int n dvd m then of_nat n else 0)"
proof -
  define w where "w = cis (2 * pi * real_of_int m / real n)"
  have pw: "cis (2 * pi * real k * real_of_int m / real n) = w ^ k" for k
    by (simp add: w_def DeMoivre algebra_simps)
  have wn: "w ^ n = 1"
  proof -
    have "w ^ n = cis (2 * pi * real_of_int m)"
      using assms by (simp add: w_def DeMoivre)
    then show ?thesis by simp
  qed
  show ?thesis
  proof (cases "int n dvd m")
    case True
    then obtain q where q: "m = int n * q" ..
    have "2 * pi * real_of_int m / real n = 2 * pi * real_of_int q"
      using assms by (simp add: q)
    then have "w = 1" by (simp add: w_def)
    then show ?thesis using True by (simp add: pw)
  next
    case False
    have "w \<noteq> 1"
    proof
      assume "w = 1"
      then have "cos (2 * pi * real_of_int m / real n) = 1"
        by (simp add: w_def complex_eq_iff)
      then obtain j :: int where j: "2 * pi * real_of_int m / real n = real_of_int j * 2 * pi"
        by (auto simp add: cos_one_2pi_int)
      then have "real_of_int m = real_of_int (j * int n)"
        using assms by (simp add: field_simps)
      then have "m = j * int n" by (simp only: of_int_eq_iff)
      with False show False by simp
    qed
    then have "(\<Sum>k<n. w ^ k) = (w ^ n - 1) / (w - 1)"
      by (rule geometric_sum)
    then show ?thesis using False by (simp add: pw wn)
  qed
qed

lemma dft_term:
  fixes xa yb :: real and k a b t n :: nat
  assumes "0 < n"
  shows "(complex_of_real xa * cis (- (2 * pi * real k * real a / real n))) *
         (complex_of_real yb * cis (- (2 * pi * real k * real b / real n))) *
         cis (2 * pi * real k * real t / real n)
       = complex_of_real (xa * yb) *
         cis (2 * pi * real k * real_of_int (int t - int a - int b) / real n)"
proof -
  have "- (2 * pi * real k * real a / real n) + - (2 * pi * real k * real b / real n)
          + 2 * pi * real k * real t / real n
        = 2 * pi * real k * real_of_int (int t - int a - int b) / real n"
    using assms by (simp add: field_simps)
  then have "cis (- (2 * pi * real k * real a / real n)) * cis (- (2 * pi * real k * real b / real n))
          * cis (2 * pi * real k * real t / real n)
        = cis (2 * pi * real k * real_of_int (int t - int a - int b) / real n)"
    by (simp only: cis_mult)
  then show ?thesis by (simp add: mult_ac)
qed

lemma dft_product_inverse:
  fixes x y :: "nat \<Rightarrow> real"
  assumes "0 < n"
  shows "(\<Sum>k<n. (\<Sum>a<n. complex_of_real (x a) * cis (- (2 * pi * real k * real a / real n))) *
                 (\<Sum>b<n. complex_of_real (y b) * cis (- (2 * pi * real k * real b / real n))) *
                 cis (2 * pi * real k * real t / real n))
       = of_nat n * (\<Sum>a<n. \<Sum>b<n. if int n dvd int t - int a - int b
                                      then complex_of_real (x a * y b) else 0)"
proof -
  let ?c = "\<lambda>k a b. complex_of_real (x a * y b) *
                cis (2 * pi * real k * real_of_int (int t - int a - int b) / real n)"
  have "(\<Sum>k<n. (\<Sum>a<n. complex_of_real (x a) * cis (- (2 * pi * real k * real a / real n))) *
                 (\<Sum>b<n. complex_of_real (y b) * cis (- (2 * pi * real k * real b / real n))) *
                 cis (2 * pi * real k * real t / real n))
      = (\<Sum>k<n. \<Sum>a<n. \<Sum>b<n. ?c k a b)"
    by (subst sum_product) (simp only: sum_distrib_right dft_term [OF assms])
  also have "\<dots> = (\<Sum>a<n. \<Sum>k<n. \<Sum>b<n. ?c k a b)"
    by (rule sum.swap)
  also have "\<dots> = (\<Sum>a<n. \<Sum>b<n. \<Sum>k<n. ?c k a b)"
    by (rule sum.cong [OF refl]) (rule sum.swap)
  also have "\<dots> = (\<Sum>a<n. \<Sum>b<n. complex_of_real (x a * y b) *
                       (if int n dvd int t - int a - int b then of_nat n else 0))"
    by (simp only: sum_distrib_left [symmetric] cis_root_sum [OF assms])
  also have "\<dots> = of_nat n * (\<Sum>a<n. \<Sum>b<n. if int n dvd int t - int a - int b
                                      then complex_of_real (x a * y b) else 0)"
    by (simp add: sum_distrib_left if_distrib [of "\<lambda>z. _ * z"] mult_ac cong: if_cong)
  finally show ?thesis .
qed

lemma dft_hermitian:
  fixes x :: "nat \<Rightarrow> real"
  assumes "0 < n" "j \<le> n"
  shows "cnj (\<Sum>t<n. complex_of_real (x t) * cis (- (2 * pi * real (n - j) * real t / real n)))
       = (\<Sum>t<n. complex_of_real (x t) * cis (- (2 * pi * real j * real t / real n)))"
proof -
  have "cis (2 * pi * real (n - j) * real t / real n) = cis (- (2 * pi * real j * real t / real n))" for t
  proof -
    have "2 * pi * real (n - j) * real t / real n
          = 2 * pi * real t + - (2 * pi * real j * real t / real n)"
      using assms by (simp add: of_nat_diff field_simps)
    then have "cis (2 * pi * real (n - j) * real t / real n)
          = cis (2 * pi * real t) * cis (- (2 * pi * real j * real t / real n))"
      by (simp only: cis_mult)
    then show ?thesis by simp
  qed
  then show ?thesis by (simp add: cis_cnj)
qed

lemma length_resize: "length (resize n xs) = n"
  by (simp add: resize_def)

lemma resize_nth: "t < n \<Longrightarrow> resize n xs ! t = (if t < length xs then xs ! t else 0)"
  by (simp add: resize_def nth_append)

lemma resize_id: "length xs = n \<Longrightarrow> resize n xs = xs"
  by (simp add: resize_def)

lemma length_rfft: "length (rfft xs n) = n div 2 + 1"
  unfolding rfft_def Let_def by (simp only: length_map length_upt diff_zero)

lemma rfft_nth:
  assumes "j \<le> n div 2"
  shows "rfft xs n ! j =
           (\<Sum>t<n. complex_of_real (resize n xs ! t) * cis (- (2 * pi * real j * real t / real n)))"
proof -
  have "j < n div 2 + 1" using assms by simp
  then have "[0..<n div 2 + 1] ! j = j"
    by (metis add_0 nth_upt)
  with \<open>j < n div 2 + 1\<close> show ?thesis
    unfolding rfft_def Let_def by (simp only: nth_map length_upt diff_zero)
qed

lemma length_irfft: "length (irfft ys n) = n"
  unfolding irfft_def Let_def by (simp only: length_map length_upt diff_zero)

lemma irfft_nth:
  assumes "t < n"
  shows "irfft ys n ! t =
           Re (\<Sum>k<n. (if k \<le> n div 2 then resize (n div 2 + 1) ys ! k
                         else cnj (resize (n div 2 + 1) ys ! (n - k)))
                      * cis (2 * pi * real k * real t / real n)) / real n"
proof -
  have "[0..<n] ! t = t" using assms by simp
  with assms show ?thesis
    unfolding irfft_def Let_def by (simp only: nth_map length_upt diff_zero)
qed

lemma map2_mult_commute:
  fixes xs ys :: "'a::comm_semiring_0 list"
  shows "map2 (*) xs ys = map2 (*) ys xs"
  by (induction xs ys rule: list_induct2') (simp_all add: mult.commute)

lemma irfft_rfft_product:
  assumes "0 < n" "t < n"
  shows "irfft (map2 (*) (rfft xs n) (rfft ys n)) n ! t =
           (\<Sum>a<n. \<Sum>b<n. if int n dvd int t - int a - int b
                             then resize n xs ! a * resize n ys ! b else 0)"
proof -
  let ?X = "\<lambda>k. \<Sum>a<n. complex_of_real (resize n xs ! a) * cis (- (2 * pi * real k * real a / real n))"
  let ?Y = "\<lambda>k. \<Sum>b<n. complex_of_real (resize n ys ! b) * cis (- (2 * pi * real k * real b / real n))"
  let ?P = "map2 (*) (rfft xs n) (rfft ys n)"
  have lenP: "length ?P = n div 2 + 1" by (simp add: length_rfft)
  have P: "?P ! k = ?X k * ?Y k" if "k \<le> n div 2" for k
    using that by (simp add: length_rfft rfft_nth)
  have full: "(if k \<le> n div 2 then resize (n div 2 + 1) ?P ! k
               else cnj (resize (n div 2 + 1) ?P ! (n - k))) = ?X k * ?Y k" if "k < n" for k
  proof (cases "k \<le> n div 2")
    case True
    then show ?thesis by (simp only: resize_id [OF lenP] P if_True)
  next
    case False
    then have le: "n - k \<le> n div 2" by linarith
    have "cnj (?P ! (n - k)) = cnj (?X (n - k)) * cnj (?Y (n - k))"
      by (simp only: P [OF le] complex_cnj_mult)
    also have "\<dots> = ?X k * ?Y k"
      using that assms(1) by (simp only: dft_hermitian [of n k] less_imp_le)
    finally show ?thesis using False by (simp only: resize_id [OF lenP] if_False)
  qed
  have "irfft ?P n ! t = Re (\<Sum>k<n. ?X k * ?Y k * cis (2 * pi * real k * real t / real n)) / real n"
    unfolding irfft_nth [OF assms(2)]
    by (intro arg_cong [where f = "\<lambda>z. Re z / real n"] sum.cong refl) (simp only: full lessThan_iff)
  also have "\<dots> = Re (of_nat n * (\<Sum>a<n. \<Sum>b<n. if int n dvd int t - int a - int b
                          then complex_of_real (resize n xs ! a * resize n ys ! b) else 0)) / real n"
    by (simp only: dft_product_inverse [OF assms(1)])
  also have "\<dots> = (\<Sum>a<n. \<Sum>b<n. if int n dvd int t - int a - int b
                             then resize n xs ! a * resize n ys ! b else 0)"
    using assms(1) by (simp add: if_distrib [of Re] cong: if_cong)
  finally show ?thesis .
qed

lemma dvd_small_int:
  fixes z :: int
  assumes "int n dvd z" "- int n < z" "z < int n"
  shows "z = 0"
proof (rule ccontr)
  assume "z \<noteq> 0"
  then have "\<bar>int n\<bar> \<le> \<bar>z\<bar>" using assms(1) by (rule dvd_imp_le_int)
  with assms(2,3) show False by simp
qed

lemma circular_term:
  assumes "length ks = L" "length us = L" "t < L" "a < 2 * L" "b < 2 * L"
  shows "(if int (2 * L) dvd int t - int a - int b
          then resize (2 * L) ks ! a * resize (2 * L) us ! b else (0::real))
       = (if b = t - a \<and> a \<le> t then ks ! a * us ! (t - a) else 0)"
proof (cases "a + b = t")
  case True
  then have "int t - int a - int b = 0" by simp
  moreover from True assms have "a < L" "b < L" "b = t - a" "a \<le> t" by simp_all
  ultimately show ?thesis using assms by (simp add: resize_nth)
next
  case False
  have "resize (2 * L) ks ! a * resize (2 * L) us ! b = 0"
    if d: "int (2 * L) dvd int t - int a - int b"
  proof (rule ccontr)
    assume nz: "resize (2 * L) ks ! a * resize (2 * L) us ! b \<noteq> 0"
    have "a < L" "b < L"
      using nz assms by (auto simp add: resize_nth split: if_splits)
    with assms(3) have "- int (2 * L) < int t - int a - int b" "int t - int a - int b < int (2 * L)"
      by simp_all
    with d have "int t - int a - int b = 0" by (rule dvd_small_int)
    with False show False by linarith
  qed
  moreover have "\<not> (b = t - a \<and> a \<le> t)" using False by auto
  ultimately show ?thesis by auto
qed

lemma circular_is_causal:
  assumes "length ks = L" "length us = L" "t < L"
  shows "(\<Sum>a<2 * L. \<Sum>b<2 * L. if int (2 * L) dvd int t - int a - int b
                        then resize (2 * L) ks ! a * resize (2 * L) us ! b else (0::real))
       = (\<Sum>s\<le>t. ks ! s * us ! (t - s))"
proof -
  have "(\<Sum>a<2 * L. \<Sum>b<2 * L. if int (2 * L) dvd int t - int a - int b
                        then resize (2 * L) ks ! a * resize (2 * L) us ! b else (0::real))
      = (\<Sum>a<2 * L. \<Sum>b<2 * L. if b = t - a \<and> a \<le> t then ks ! a * us ! (t - a) else 0)"
    by (intro sum.cong refl circular_term [OF assms]) simp_all
  also have "\<dots> = (\<Sum>a<2 * L. if a \<le> t then ks ! a * us ! (t - a) else 0)"
  proof (intro sum.cong refl)
    fix a assume "a \<in> {..<2 * L}"
    have "(\<Sum>b<2 * L. if b = t - a \<and> a \<le> t then ks ! a * us ! (t - a) else 0)
        = (\<Sum>b<2 * L. if b = t - a then (if a \<le> t then ks ! a * us ! (t - a) else 0) else 0)"
      by (intro sum.cong refl) simp
    also have "\<dots> = (if a \<le> t then ks ! a * us ! (t - a) else 0)"
    proof -
      have "t - a < 2 * L" using assms(3) by linarith
      then show ?thesis by (simp add: sum.delta)
    qed
    finally show "(\<Sum>b<2 * L. if b = t - a \<and> a \<le> t then ks ! a * us ! (t - a) else 0)
        = (if a \<le> t then ks ! a * us ! (t - a) else 0)" .
  qed
  also have "\<dots> = (\<Sum>a\<in>{..<2 * L} \<inter> {a. a \<le> t}. ks ! a * us ! (t - a))"
    by (simp add: sum.If_cases)
  also have "{..<2 * L} \<inter> {a. a \<le> t} = {..t}"
    using assms(3) by auto
  finally show ?thesis .
qed

lemma fft_conv_row:
  assumes "length ks = L" "length us = L" "t < L"
  shows "take L (irfft (map2 (*) (rfft us (2 * L)) (rfft ks (2 * L))) (2 * L)) ! t
       = (\<Sum>s\<le>t. ks ! s * us ! (t - s))"
proof -
  have "0 < 2 * L" "t < 2 * L" using assms(3) by simp_all
  then have "irfft (map2 (*) (rfft ks (2 * L)) (rfft us (2 * L))) (2 * L) ! t
        = (\<Sum>a<2 * L. \<Sum>b<2 * L. if int (2 * L) dvd int t - int a - int b
                        then resize (2 * L) ks ! a * resize (2 * L) us ! b else 0)"
    by (rule irfft_rfft_product)
  then show ?thesis
    using assms(3)
    by (simp only: nth_take map2_mult_commute [of "rfft us (2 * L)"] circular_is_causal [OF assms])
qed

lemma length_fft_conv_row:
  "length (take L (irfft ys (2 * L))) = L"
  by (simp add: length_irfft)

lemma shape3_nth: "shape3 x B H L \<Longrightarrow> b < B \<Longrightarrow> shape2 (x ! b) H L"
  by (simp add: shape3_def list_all_length)

lemma shape3_length: "shape3 x B H L \<Longrightarrow> length x = B"
  by (simp add: shape3_def)

lemma fft_conv_row_eq:
  assumes "length ks = L" "length us = L"
  shows "take L (irfft (map2 (*) (rfft us (2 * L)) (rfft ks (2 * L))) (2 * L))
       = map (\<lambda>t. \<Sum>s\<le>t. ks ! s * us ! (t - s)) [0..<L]"
proof (rule nth_equalityI)
  show "length (take L (irfft (map2 (*) (rfft us (2 * L)) (rfft ks (2 * L))) (2 * L)))
      = length (map (\<lambda>t. \<Sum>s\<le>t. ks ! s * us ! (t - s)) [0..<L])"
    by (simp add: length_irfft)
next
  fix t
  assume "t < length (take L (irfft (map2 (*) (rfft us (2 * L)) (rfft ks (2 * L))) (2 * L)))"
  then have t: "t < L" by (simp add: length_irfft)
  then show "take L (irfft (map2 (*) (rfft us (2 * L)) (rfft ks (2 * L))) (2 * L)) ! t
      = map (\<lambda>t. \<Sum>s\<le>t. ks ! s * us ! (t - s)) [0..<L] ! t"
    by (simp only: fft_conv_row [OF assms t] nth_map length_upt diff_zero nth_upt add_0)
qed

lemma fft_conv_matrix_eq:
  assumes "shape2 k H L" "shape2 m H L"
  shows "map (\<lambda>row. take L (irfft row (2 * L)))
           (ew2 (*) (map (\<lambda>row. rfft row (2 * L)) m) (map (\<lambda>row. rfft row (2 * L)) k))
       = map2 (\<lambda>krow urow. map (\<lambda>t. \<Sum>s\<le>t. krow ! s * urow ! (t - s)) [0..<L]) k m"
proof (rule nth_equalityI)
  show "length (map (\<lambda>row. take L (irfft row (2 * L)))
           (ew2 (*) (map (\<lambda>row. rfft row (2 * L)) m) (map (\<lambda>row. rfft row (2 * L)) k)))
      = length (map2 (\<lambda>krow urow. map (\<lambda>t. \<Sum>s\<le>t. krow ! s * urow ! (t - s)) [0..<L]) k m)"
    using assms by (simp add: ew2_def shape2_length)
next
  fix h
  assume "h < length (map (\<lambda>row. take L (irfft row (2 * L)))
           (ew2 (*) (map (\<lambda>row. rfft row (2 * L)) m) (map (\<lambda>row. rfft row (2 * L)) k)))"
  then have h: "h < H" using assms by (simp add: ew2_def shape2_length)
  have lk: "length (k ! h) = L" and lm: "length (m ! h) = L"
    using assms h by (simp_all add: shape2_nth)
  have hk: "h < length k" and hm: "h < length m"
    using assms h by (simp_all add: shape2_length)
  show "map (\<lambda>row. take L (irfft row (2 * L)))
           (ew2 (*) (map (\<lambda>row. rfft row (2 * L)) m) (map (\<lambda>row. rfft row (2 * L)) k)) ! h
      = map2 (\<lambda>krow urow. map (\<lambda>t. \<Sum>s\<le>t. krow ! s * urow ! (t - s)) [0..<L]) k m ! h"
    using hk hm by (simp add: ew2_def fft_conv_row_eq [OF lk lm])
qed

lemma fft_conv_direct_conv:
  assumes "shape2 k H L" "shape3 u B H L"
  shows "fft_conv L k u = direct_conv L k u"
proof -
  have "\<forall>m\<in>set u. shape2 m H L"
    using assms(2) by (simp add: shape3_def list_all_iff)
  then show ?thesis
    unfolding fft_conv_def direct_conv_def Let_def map_map comp_def
    by (intro map_cong refl fft_conv_matrix_eq [OF assms(1)]) simp
qed

lemma direct_conv_shape:
  assumes "shape2 k H L" "shape3 u B H L"
  shows "shape3 (direct_conv L k u) B H L"
  using assms
  by (auto simp add: direct_conv_def shape3_def shape2_def list_all_length)

lemma direct_conv_nth:
  assumes "shape2 k H L" "shape3 u B H L" "b < B" "h < H" "t < L"
  shows "direct_conv L k u ! b ! h ! t = (\<Sum>s\<le>t. k ! h ! s * u ! b ! h ! (t - s))"
  using assms shape3_nth [OF assms(2,3)]
  by (simp add: direct_conv_def shape3_length shape2_length)

lemma shape3_nth_nth: "shape3 x B H L \<Longrightarrow> b < B \<Longrightarrow> h < H \<Longrightarrow> length (x ! b ! h) = L"
  by (simp add: shape3_def shape2_def list_all_length)

lemma shape3_nth_length: "shape3 x B H L \<Longrightarrow> b < B \<Longrightarrow> length (x ! b) = H"
  by (simp add: shape3_def shape2_def list_all_length)

lemma add_skip_nth:
  assumes "shape3 y B H L" "shape3 u B H L" "length D0 = H" "b < B" "h < H" "t < L"
  shows "add_skip y u D0 ! b ! h ! t = y ! b ! h ! t + u ! b ! h ! t * D0 ! h"
  using assms shape3_length [OF assms(1)] shape3_length [OF assms(2)]
    shape3_nth_length [OF assms(1,4)] shape3_nth_length [OF assms(2,4)]
    shape3_nth_nth [OF assms(1,4,5)] shape3_nth_nth [OF assms(2,4,5)]
  by (simp add: add_skip_def ew2_def)

lemma add_skip_shape:
  assumes "shape3 y B H L" "shape3 u B H L" "length D0 = H"
  shows "shape3 (add_skip y u D0) B H L"
  using assms
  by (auto simp add: add_skip_def ew2_def shape3_def shape2_def list_all_length)

lemma shape2_zeros: "shape2 (replicate H (replicate L (0::real))) H L"
  by (simp add: shape2_def list_all_length)

text \<open>
  Claim C2. For a kernel of shape \<open>(H, L)\<close> and an input of shape \<open>(B, H, L)\<close> the
  convolution stage of \<open>S4D.forward\<close> (\<open>rfft\<close> of both at length \<open>2L\<close>, product, \<open>irfft\<close>,
  the first \<open>L\<close> samples) is the direct causal convolution
  \<open>y[b,h,t] = \<Sum>s\<le>t. k[h,s] u[b,h,t-s]\<close>.
\<close>

theorem fft_conv_equals_direct_convolution:
  assumes "shape2 k H L" "shape3 u B H L"
  shows "fft_conv L k u = direct_conv L k u \<and>
         shape3 (fft_conv L k u) B H L \<and>
         (\<forall>b<B. \<forall>h<H. \<forall>t<L.
            fft_conv L k u ! b ! h ! t = (\<Sum>s\<le>t. k ! h ! s * u ! b ! h ! (t - s)))"
  using fft_conv_direct_conv [OF assms] direct_conv_shape [OF assms] direct_conv_nth [OF assms]
  by simp

theorem fft_conv_equals_direct_convolution_witness:
  "shape2 [[1, 2 :: real]] 1 2 \<and> shape3 [[[3, 4 :: real]]] 1 1 2 \<and>
   fft_conv 2 [[1, 2]] [[[3, 4]]] = direct_conv 2 [[1, 2]] [[[3, 4]]] \<and>
   fft_conv 2 [[1, 2]] [[[3, 4]]] = [[[3, 10]]]"
proof -
  have a: "shape2 [[1, 2 :: real]] 1 2" by (simp add: shape2_def)
  have b: "shape3 [[[3, 4 :: real]]] 1 1 2" by (simp add: shape3_def shape2_def)
  have c: "direct_conv 2 [[1, 2]] [[[3, 4]]] = [[[3, 10]]]"
    by (simp add: direct_conv_def upt_rec [of 0] upt_rec [of 1] atMost_Suc eval_nat_numeral)
  show ?thesis
    using a b c fft_conv_equals_direct_convolution [OF a b] by simp
qed

text \<open>
  Claim C6. With a kernel that is zero everywhere, the convolution and skip stage of
  \<open>S4D.forward\<close> returns \<open>D[h] u[b,h,t]\<close> at every index \<open>(b, h, t)\<close>.
\<close>

theorem zero_kernel_skip_only:
  assumes "shape3 u B H L" "length D0 = H"
  shows "shape3 (add_skip (fft_conv L (replicate H (replicate L 0)) u) u D0) B H L \<and>
         (\<forall>b<B. \<forall>h<H. \<forall>t<L.
            add_skip (fft_conv L (replicate H (replicate L 0)) u) u D0 ! b ! h ! t
              = D0 ! h * u ! b ! h ! t)"
proof -
  let ?k = "replicate H (replicate L (0::real))"
  have eq: "fft_conv L ?k u = direct_conv L ?k u"
    by (rule fft_conv_direct_conv [OF shape2_zeros assms(1)])
  have sh: "shape3 (direct_conv L ?k u) B H L"
    by (rule direct_conv_shape [OF shape2_zeros assms(1)])
  have z: "direct_conv L ?k u ! b ! h ! t = 0" if "b < B" "h < H" "t < L" for b h t
    using that by (simp add: direct_conv_nth [OF shape2_zeros assms(1) that])
  show ?thesis
    unfolding eq
    using add_skip_shape [OF sh assms] add_skip_nth [OF sh assms] z
    by (simp add: mult.commute)
qed

theorem zero_kernel_skip_only_witness:
  "shape3 [[[3, 4 :: real]]] 1 1 2 \<and> length [5 :: real] = 1 \<and>
   add_skip (fft_conv 2 (replicate 1 (replicate 2 0)) [[[3, 4]]]) [[[3, 4]]] [5] ! 0 ! 0 ! 1 = 5 * 4"
proof -
  have b: "shape3 [[[3, 4 :: real]]] 1 1 2" by (simp add: shape3_def shape2_def)
  have d: "length [5 :: real] = 1" by simp
  show ?thesis
    using b zero_kernel_skip_only [OF b d] by simp
qed


section \<open>The shape of the output\<close>





lemma length_Linear_forward:
  "Linear_shaped lin i j \<Longrightarrow> length (Linear_forward lin v) = j"
  by (simp add: Linear_shaped_def Linear_forward_def shape2_def)


text \<open>
  For positive dimensions the layers keep the shape \<open>(B, d_model, L)\<close>: the shapes of
  the tensors between the stages of the forward pass.
\<close>

lemma shape2_I: "length x = H \<Longrightarrow> (\<And>h. h < H \<Longrightarrow> length (x ! h) = N) \<Longrightarrow> shape2 x H N"
  by (simp add: shape2_def list_all_length)

lemma shape3_I: "length x = B \<Longrightarrow> (\<And>b. b < B \<Longrightarrow> shape2 (x ! b) H L) \<Longrightarrow> shape3 x B H L"
  by (simp add: shape3_def list_all_length)

lemma shape3_map:
  assumes "shape3 x B H L" "\<And>m. shape2 m H L \<Longrightarrow> shape2 (f m) H' L'"
  shows "shape3 (map f x) B H' L'"
  using assms by (simp add: shape3_def list_all_length)

lemma transpose_shape:
  assumes "shape2 m H L" "0 < H"
  shows "shape2 (transpose m) L H"
proof -
  have "transpose m = map (\<lambda>i. map (\<lambda>j. m ! j ! i) [0..<length m]) [0..<L]"
    using assms by (intro transpose_rectangle) (auto simp add: shape2_def list_all_length)
  then show ?thesis using assms by (simp add: shape2_def list_all_length)
qed

lemma Conv1d_forward_shape:
  assumes "shape2 (conv_weight c) J H" "length (conv_bias c) = J" "shape2 m H L" "0 < H"
  shows "shape2 (Conv1d_forward c m) J L"
  using assms transpose_shape [OF assms(3,4)]
  by (simp add: Conv1d_forward_def shape2_def list_all_length)

lemma GLU_shape:
  assumes "shape2 m (2 * H) L"
  shows "shape2 (GLU m) H L"
  using assms by (simp add: GLU_def Let_def ew2_def shape2_def list_all_length)

lemma Dropout1d_forward_shape:
  assumes "shape3 x B H L"
  shows "shape3 (Dropout1d_forward training d keep x) B H L"
  using assms
  by (simp add: Dropout1d_forward_def shape3_def shape2_def list_all_length nth_enumerate_eq)

lemma GELU_shape:
  assumes "shape3 x B H L"
  shows "shape3 (map (map (map GELU)) x) B H L"
  using assms by (simp add: shape3_def shape2_def list_all_length)

lemma LayerNorm_forward_length:
  assumes "LayerNorm_shaped nrm d" "length v = d"
  shows "length (LayerNorm_forward nrm v) = d"
  using assms by (simp add: LayerNorm_forward_def LayerNorm_shaped_def Let_def)

lemma S4D_forward_shape:
  assumes "S4D_shaped s H N2 L" "shape3 u B H L" "0 < H"
  shows "shape3 (fst (S4D_forward training s keep u)) B H L"
proof -
  from assms(1) have tr: "transposed s" and dl: "length (D s) = H" and ll: "length_s4d s = L"
    and ks: "kernel_shaped (kernel s) H N2 L"
    and cw: "shape2 (conv_weight (output_linear s)) (2 * H) H"
    and cb: "length (conv_bias (output_linear s)) = 2 * H"
    by (simp_all add: S4D_shaped_def)
  let ?k = "S4DKernel_forward (kernel s)"
  have k: "shape2 ?k H L" by (rule S4DKernel_forward_shape [OF ks])
  have y1: "shape3 (fft_conv L ?k u) B H L"
    by (simp only: fft_conv_direct_conv [OF k assms(2)] direct_conv_shape [OF k assms(2)])
  have y2: "shape3 (add_skip (fft_conv L ?k u) u (D s)) B H L"
    by (rule add_skip_shape [OF y1 assms(2) dl])
  have y3: "shape3 (Dropout1d_forward training (dropout s) keep
              (map (map (map GELU)) (add_skip (fft_conv L ?k u) u (D s)))) B H L"
    by (intro Dropout1d_forward_shape GELU_shape y2)
  have y4: "shape3 (map (\<lambda>m. GLU (Conv1d_forward (output_linear s) m))
              (Dropout1d_forward training (dropout s) keep
                (map (map (map GELU)) (add_skip (fft_conv L ?k u) u (D s))))) B H L"
    by (intro shape3_map [OF y3] GLU_shape Conv1d_forward_shape [OF cw cb _ assms(3)])
  show ?thesis
    using y4 tr ll by (simp add: S4D_forward_def Let_def)
qed

lemma norm_channels_shape:
  assumes "LayerNorm_shaped nrm H" "shape3 z B H L" "0 < H" "0 < L"
  shows "shape3 (norm_channels nrm z) B H L"
proof -
  have "shape2 (transpose (map (LayerNorm_forward nrm) (transpose m))) H L" if m: "shape2 m H L" for m
  proof -
    have t: "shape2 (transpose m) L H" by (rule transpose_shape [OF m assms(3)])
    have "shape2 (map (LayerNorm_forward nrm) (transpose m)) L H"
      using t by (simp add: shape2_def list_all_length LayerNorm_forward_length [OF assms(1)])
    then show ?thesis by (rule transpose_shape) (rule assms(4))
  qed
  then have "shape3 (map (\<lambda>m. transpose (map (LayerNorm_forward nrm) (transpose m))) z) B H L"
    by (rule shape3_map [OF assms(2)])
  then show ?thesis by (simp add: norm_channels_def comp_def)
qed

lemma residual_add_shape:
  assumes "shape3 z B H L" "shape3 x B H L"
  shows "shape3 (map2 (ew2 (+)) z x) B H L"
  using assms by (simp add: ew2_def shape3_def shape2_def list_all_length)

lemma residual_loop_shape:
  assumes "list_all (\<lambda>(s, nrm, drp). S4D_shaped s H N2 L \<and> LayerNorm_shaped nrm H) ls"
      and "shape3 x B H L" "0 < H" "0 < L"
  shows "shape3 (residual_loop training pre ls rnd x) B H L"
  using assms(1,2)
proof (induction ls arbitrary: rnd x)
  case Nil
  then show ?case by simp
next
  case (Cons a ls)
  obtain s nrm drp where a: "a = (s, nrm, drp)" by (cases a) auto
  from Cons.prems(1) have s: "S4D_shaped s H N2 L" and n: "LayerNorm_shaped nrm H"
    and rest: "list_all (\<lambda>(s, nrm, drp). S4D_shaped s H N2 L \<and> LayerNorm_shaped nrm H) ls"
    by (simp_all add: a)
  let ?z0 = "if pre then norm_channels nrm x else x"
  have z0: "shape3 ?z0 B H L"
    using norm_channels_shape [OF n Cons.prems(2) assms(3,4)] Cons.prems(2) by simp
  let ?z1 = "Dropout1d_forward training drp (rnd 1) (fst (S4D_forward training s (rnd 0) ?z0))"
  have z1: "shape3 ?z1 B H L"
    by (intro Dropout1d_forward_shape S4D_forward_shape [OF s z0 assms(3)])
  let ?x1 = "map2 (ew2 (+)) ?z1 x"
  have x1: "shape3 ?x1 B H L" by (rule residual_add_shape [OF z1 Cons.prems(2)])
  let ?x2 = "if \<not> pre then norm_channels nrm ?x1 else ?x1"
  have x2: "shape3 ?x2 B H L"
  proof (cases pre)
    case True
    then show ?thesis using x1 by (simp only: not_True_eq_False if_False)
  next
    case False
    then show ?thesis
      using norm_channels_shape [OF n x1 assms(3,4)] by (simp only: not_False_eq_True if_True)
  qed
  have "residual_loop training pre (a # ls) rnd x = residual_loop training pre ls (\<lambda>i. rnd (i + 2)) ?x2"
    by (simp add: a Let_def)
  then show ?case using Cons.IH [OF rest x2] by simp
qed

lemma encoder_stage_shape:
  assumes "Linear_shaped enc d_input d_model" "shape3 x B d_input L" "0 < d_input" "0 < L"
  shows "shape3 (map transpose (map (map (Linear_forward enc)) (map transpose x))) B d_model L"
proof -
  have "shape2 (transpose (map (Linear_forward enc) (transpose m))) d_model L"
    if m: "shape2 m d_input L" for m
  proof -
    have t: "shape2 (transpose m) L d_input" by (rule transpose_shape [OF m assms(3)])
    have "shape2 (map (Linear_forward enc) (transpose m)) L d_model"
      using t by (simp add: shape2_def list_all_length length_Linear_forward [OF assms(1)])
    then show ?thesis by (rule transpose_shape) (rule assms(4))
  qed
  then have "shape3 (map (\<lambda>m. transpose (map (Linear_forward enc) (transpose m))) x) B d_model L"
    by (rule shape3_map [OF assms(2)])
  then show ?thesis by (simp add: comp_def)
qed

lemma pooling_stage_shape:
  assumes "shape3 x B H L" "0 < H" "0 < L"
  shows "shape2 (map mean_dim1 (map transpose x)) B H"
proof -
  have "length (mean_dim1 (transpose m)) = H" if m: "shape2 m H L" for m
  proof -
    have "shape2 (transpose (transpose m)) H L"
      by (intro transpose_shape [OF transpose_shape [OF m assms(2)] assms(3)])
    then show ?thesis by (simp add: mean_dim1_def shape2_def)
  qed
  then show ?thesis
    using assms(1) by (simp add: shape3_def shape2_def list_all_length)
qed

lemma layers_shaped_zip:
  assumes "S4Model_shaped m d_input L d_output d_model N2 n_layers"
  shows "list_all (\<lambda>(s, nrm, drp). S4D_shaped s d_model N2 L \<and> LayerNorm_shaped nrm d_model)
           (zip (s4_layers m) (zip (norms m) (dropouts m)))"
  using assms by (simp add: S4Model_shaped_def list_all_length)

text \<open>Every stage of the forward pass receives a tensor of the shape it was built for.\<close>

lemma S4Model_forward_stages:
  assumes "S4Model_shaped m d_input L d_output d_model N2 n_layers"
      and "shape3 x B d_input L" and "0 < d_input" "0 < L" "0 < d_model"
  shows "shape2 (map mean_dim1 (map transpose
           (residual_loop training (prenorm m) (zip (s4_layers m) (zip (norms m) (dropouts m))) rnd
              (map transpose (map (map (Linear_forward (encoder m))) (map transpose x))))))
           B d_model"
proof -
  have enc: "Linear_shaped (encoder m) d_input d_model"
    using assms(1) by (simp add: S4Model_shaped_def)
  have e: "shape3 (map transpose (map (map (Linear_forward (encoder m))) (map transpose x)))
             B d_model L"
    by (rule encoder_stage_shape [OF enc assms(2,3,4)])
  have r: "shape3 (residual_loop training (prenorm m)
             (zip (s4_layers m) (zip (norms m) (dropouts m))) rnd
             (map transpose (map (map (Linear_forward (encoder m))) (map transpose x))))
             B d_model L"
    by (rule residual_loop_shape [OF layers_shaped_zip [OF assms(1)] e assms(5,4)])
  show ?thesis
    by (rule pooling_stage_shape [OF r assms(5,4)])
qed










end
